theory Spec2Isabelle
  imports Complex_Main
begin

section \<open>Python values\<close>

text \<open>
  The pipeline passes JSON-compatible Python values between its stages. A dict is an
  association list in insertion order (a well-formed dict has distinct keys); all keys
  are strings, as they are in every value that \<^verbatim>\<open>json.loads\<close> returns.

  A Python float is modelled by an exact rational, or one of the three special values.
  Arithmetic on finite floats is exact in the model: there is no rounding error and no
  overflow to infinity inside an addition or a division. Conversions that raise in
  Python (a non-finite float to int, an int beyond the float range to float) raise in
  the model.
\<close>

datatype pyfloat = Fin rat | PosInf | NegInf | NaN

datatype pyval =
    PNone
  | PBool bool
  | PInt int
  | PFloat pyfloat
  | PStr string
  | PList "pyval list"
  | PDict "(string \<times> pyval) list"

datatype error =
    TypeError
  | ValueError
  | OverflowError
  | AttributeError
  | KeyError
  | JSONDecodeError
  | CallError string

type_synonym pydict = "(string \<times> pyval) list"

text \<open>
  What the Python runtime and the libraries decide, and the code only calls:
  \<^verbatim>\<open>int(s)\<close> and \<^verbatim>\<open>float(s)\<close> on a string (\<open>None\<close> is ValueError),
  the order of \<^verbatim>\<open>list(set(xs))\<close>, the \<^verbatim>\<open>:.2f\<close> format of a float,
  \<^verbatim>\<open>str(x)\<close>, \<^verbatim>\<open>json.dumps(x, ensure_ascii=False)\<close>,
  \<^verbatim>\<open>json.loads(s)\<close> (\<open>None\<close> is JSONDecodeError) and the tiktoken count
  \<^verbatim>\<open>count_tokens(s, model)\<close>.
\<close>

record runtime =
  int_of_str :: "string \<Rightarrow> int option"
  float_of_str :: "string \<Rightarrow> pyfloat option"
  list_of_set :: "pyval list \<Rightarrow> pyval list"
  format_2f :: "pyfloat \<Rightarrow> string"
  py_str :: "pyval \<Rightarrow> string"
  json_dumps :: "pyval \<Rightarrow> string"
  json_loads :: "string \<Rightarrow> pyval option"
  count_tokens :: "string \<Rightarrow> nat"

subsection \<open>Dict operations\<close>

definition dict_has :: "pydict \<Rightarrow> string \<Rightarrow> bool" where
  "dict_has d k = (map_of d k \<noteq> None)"

definition dict_get :: "pydict \<Rightarrow> string \<Rightarrow> pyval \<Rightarrow> pyval" where
  "dict_get d k dflt = (case map_of d k of None \<Rightarrow> dflt | Some v \<Rightarrow> v)"

fun dict_set :: "pydict \<Rightarrow> string \<Rightarrow> pyval \<Rightarrow> pydict" where
  "dict_set [] k v = [(k, v)]"
| "dict_set ((k', v') # d) k v =
     (if k' = k then (k, v) # d else (k', v') # dict_set d k v)"


definition is_dict :: "pyval \<Rightarrow> bool" where
  "is_dict x = (case x of PDict _ \<Rightarrow> True | _ \<Rightarrow> False)"

definition is_list :: "pyval \<Rightarrow> bool" where
  "is_list x = (case x of PList _ \<Rightarrow> True | _ \<Rightarrow> False)"

definition hashable :: "pyval \<Rightarrow> bool" where
  "hashable x = (case x of PList _ \<Rightarrow> False | PDict _ \<Rightarrow> False | _ \<Rightarrow> True)"

subsection \<open>Conversions and float comparison\<close>



definition trunc :: "rat \<Rightarrow> int" where
  "trunc q = (if 0 \<le> q then \<lfloor>q\<rfloor> else \<lceil>q\<rceil>)"

definition py_int :: "runtime \<Rightarrow> pyval \<Rightarrow> error + int" where
  "py_int rt x =
     (case x of
        PNone \<Rightarrow> Inl TypeError
      | PBool b \<Rightarrow> Inr (if b then 1 else 0)
      | PInt i \<Rightarrow> Inr i
      | PFloat f \<Rightarrow>
          (case f of
             Fin q \<Rightarrow> Inr (trunc q)
           | NaN \<Rightarrow> Inl ValueError
           | _ \<Rightarrow> Inl OverflowError)
      | PStr s \<Rightarrow> (case int_of_str rt s of None \<Rightarrow> Inl ValueError | Some i \<Rightarrow> Inr i)
      | PList _ \<Rightarrow> Inl TypeError
      | PDict _ \<Rightarrow> Inl TypeError)"





section \<open>The scoring stage\<close>

definition valid_phases :: "string list" where
  "valid_phases = [''Preclinical'', ''Phase I'', ''Phase II'', ''Phase III'', ''Approved'']"


definition bind_err :: "error + 'a \<Rightarrow> ('a \<Rightarrow> error + 'b) \<Rightarrow> error + 'b" where
  "bind_err m f = (case m of Inl e \<Rightarrow> Inl e | Inr x \<Rightarrow> f x)"




subsection \<open>Combining the chunk results\<close>

record combine_acc =
  phases :: "(string \<times> int) list"
  modalities :: "pyval list"
  acquisitions :: "pyval list"
  flags :: "pyval list"

text \<open>
  The inner loop over \<^verbatim>\<open>phase_dist.items()\<close>: a count whose \<^verbatim>\<open>int()\<close> raises
  ValueError or TypeError is skipped, any other exception leaves the function.
\<close>

fun add_phase_counts ::
  "runtime \<Rightarrow> pydict \<Rightarrow> (string \<times> int) list \<Rightarrow> error + (string \<times> int) list" where
  "add_phase_counts rt [] comb = Inr comb"
| "add_phase_counts rt ((phase, count) # items) comb =
     (if phase \<in> set (map fst comb) then
        (case py_int rt count of
           Inr n \<Rightarrow>
             add_phase_counts rt items
               (map (\<lambda>(k, c). if k = phase then (k, c + n) else (k, c)) comb)
         | Inl e \<Rightarrow>
             if e = ValueError \<or> e = TypeError then add_phase_counts rt items comb
             else Inl e)
      else add_phase_counts rt items comb)"

definition extend_field :: "pydict \<Rightarrow> string \<Rightarrow> pyval list \<Rightarrow> pyval list" where
  "extend_field chunk k acc =
     (case map_of chunk k of Some (PList xs) \<Rightarrow> acc @ xs | _ \<Rightarrow> acc)"

definition combine_chunk :: "runtime \<Rightarrow> pydict \<Rightarrow> combine_acc \<Rightarrow> error + combine_acc" where
  "combine_chunk rt chunk acc =
     bind_err
       (case map_of chunk ''phase_distribution'' of
          Some (PDict phase_dist) \<Rightarrow> add_phase_counts rt phase_dist (phases acc)
        | _ \<Rightarrow> Inr (phases acc)) (\<lambda>ph.
     bind_err
       (case map_of chunk ''modalities'' of
          Some (PList ms) \<Rightarrow>
            if list_all hashable ms then Inr (modalities acc @ ms) else Inl TypeError
        | _ \<Rightarrow> Inr (modalities acc)) (\<lambda>ms.
       Inr \<lparr>phases = ph, modalities = ms,
            acquisitions = extend_field chunk ''notable_acquisitions'' (acquisitions acc),
            flags = extend_field chunk ''white_space_flags'' (flags acc)\<rparr>))"

fun combine_loop :: "runtime \<Rightarrow> pydict list \<Rightarrow> combine_acc \<Rightarrow> error + combine_acc" where
  "combine_loop rt [] acc = Inr acc"
| "combine_loop rt (chunk # chunks) acc =
     bind_err (combine_chunk rt chunk acc) (combine_loop rt chunks)"









subsection \<open>Reading a result\<close>

fun sum_int_values :: "pydict \<Rightarrow> int option" where
  "sum_int_values [] = Some 0"
| "sum_int_values ((k, PInt n) # d) = map_option (\<lambda>s. n + s) (sum_int_values d)"
| "sum_int_values (_ # d) = None"





subsection \<open>What a chunk contributes\<close>

text \<open>
  The counts that one chunk result adds to a phase: the values under that phase name in
  its \<^verbatim>\<open>phase_distribution\<close> dict that \<^verbatim>\<open>int()\<close> converts; a chunk without
  such a dict adds nothing.
\<close>

definition chunk_phase_dist :: "pydict \<Rightarrow> pydict" where
  "chunk_phase_dist chunk =
     (case map_of chunk ''phase_distribution'' of Some (PDict pd) \<Rightarrow> pd | _ \<Rightarrow> [])"



definition list_items :: "pydict \<Rightarrow> string \<Rightarrow> pyval list" where
  "list_items chunk k = (case map_of chunk k of Some (PList xs) \<Rightarrow> xs | _ \<Rightarrow> [])"






text \<open>A runtime for evaluating concrete inputs: no string converts, sets keep list order.\<close>

definition plain_runtime :: runtime where
  "plain_runtime =
     \<lparr>int_of_str = (\<lambda>s. None), float_of_str = (\<lambda>s. None), list_of_set = remdups,
      format_2f = (\<lambda>f. []), py_str = (\<lambda>x. []), json_dumps = (\<lambda>x. []),
      json_loads = (\<lambda>s. None), count_tokens = length\<rparr>"





section \<open>The record validator\<close>

text \<open>Python truth value of a JSON value: \<^verbatim>\<open>None\<close>, \<^verbatim>\<open>False\<close>, zero and the empty
  string, list and dict are false.\<close>

definition py_truthy :: "pyval \<Rightarrow> bool" where
  "py_truthy x =
     (case x of
        PNone \<Rightarrow> False
      | PBool b \<Rightarrow> b
      | PInt i \<Rightarrow> i \<noteq> 0
      | PFloat f \<Rightarrow> f \<noteq> Fin 0
      | PStr s \<Rightarrow> s \<noteq> []
      | PList xs \<Rightarrow> xs \<noteq> []
      | PDict d \<Rightarrow> d \<noteq> [])"

definition fill_field :: "pydict \<Rightarrow> string \<Rightarrow> pydict" where
  "fill_field validated_item field =
     (if \<not> dict_has validated_item field \<or> \<not> py_truthy (dict_get validated_item field PNone)
      then dict_set validated_item field (PStr ''Unknown'')
      else validated_item)"

definition validated_item :: "string list \<Rightarrow> pydict \<Rightarrow> pydict" where
  "validated_item required_fields item =
     dict_set (foldl fill_field item required_fields) ''_validated'' (PBool True)"

fun valid_entries :: "string list \<Rightarrow> pyval list \<Rightarrow> pydict list" where
  "valid_entries required_fields [] = []"
| "valid_entries required_fields (PDict item # data) =
     validated_item required_fields item # valid_entries required_fields data"
| "valid_entries required_fields (_ # data) = valid_entries required_fields data"

definition extract_valid_entries :: "pyval \<Rightarrow> string list option \<Rightarrow> pydict list" where
  "extract_valid_entries data required_fields =
     (let required_fields = (case required_fields of None \<Rightarrow> [] | Some fs \<Rightarrow> fs) in
      case data of
        PDict d \<Rightarrow> valid_entries required_fields [PDict d]
      | PList xs \<Rightarrow> valid_entries required_fields xs
      | _ \<Rightarrow> [])"

text \<open>The dict elements of a list, in order, and the test the validator applies to a field.\<close>

fun dict_entries :: "pyval list \<Rightarrow> pydict list" where
  "dict_entries [] = []"
| "dict_entries (PDict d # xs) = d # dict_entries xs"
| "dict_entries (_ # xs) = dict_entries xs"

definition missing_or_falsy :: "pydict \<Rightarrow> string \<Rightarrow> bool" where
  "missing_or_falsy d f = (case map_of d f of None \<Rightarrow> True | Some v \<Rightarrow> \<not> py_truthy v)"

definition fields_of :: "string list option \<Rightarrow> string list" where
  "fields_of required_fields = (case required_fields of None \<Rightarrow> [] | Some fs \<Rightarrow> fs)"

definition backfilled :: "string list \<Rightarrow> pydict \<Rightarrow> pydict \<Rightarrow> bool" where
  "backfilled names item r =
     (map_of r ''_validated'' = Some (PBool True) \<and>
      (\<forall>f \<in> set names. dict_has r f) \<and>
      (\<forall>f. f \<noteq> ''_validated'' \<longrightarrow>
         map_of r f =
           (if f \<in> set names \<and> missing_or_falsy item f then Some (PStr ''Unknown'')
            else map_of item f)))"

section \<open>The normalization stage\<close>

definition validated_entry :: "pydict \<Rightarrow> pydict" where
  "validated_entry entry =
     [(''drug_name'', dict_get entry ''drug_name'' (PStr ''Unknown'')),
      (''status'', dict_get entry ''status'' (PStr ''Unknown'')),
      (''modality'', dict_get entry ''modality'' (PStr ''Unknown'')),
      (''sponsor'', dict_get entry ''sponsor'' (PStr ''Unknown'')),
      (''indication'', dict_get entry ''indication'' (PStr ''Unknown'')),
      (''mechanism_of_action'', dict_get entry ''mechanism_of_action'' (PStr ''Unknown'')),
      (''acquisition/licensing signals'',
         dict_get entry ''acquisition/licensing signals'' (PStr '''')),
      (''_validated'', PBool True)]"

fun validated_entries :: "pyval list \<Rightarrow> pyval list" where
  "validated_entries [] = []"
| "validated_entries (PDict entry # phase_data) =
     PDict (validated_entry entry) # validated_entries phase_data"
| "validated_entries (_ # phase_data) = validated_entries phase_data"

definition validate_phase :: "pydict \<Rightarrow> string \<Rightarrow> pyval" where
  "validate_phase data phase =
     (case map_of data phase of
        Some (PList phase_data) \<Rightarrow> PList (validated_entries phase_data)
      | _ \<Rightarrow> PList [])"

definition validate_normalized_structure :: "pydict \<Rightarrow> pydict" where
  "validate_normalized_structure data =
     foldl (\<lambda>result phase. dict_set result phase (validate_phase data phase)) [] valid_phases"

definition entry_defaults :: "(string \<times> pyval) list" where
  "entry_defaults =
     [(''drug_name'', PStr ''Unknown''), (''status'', PStr ''Unknown''),
      (''modality'', PStr ''Unknown''), (''sponsor'', PStr ''Unknown''),
      (''indication'', PStr ''Unknown''), (''mechanism_of_action'', PStr ''Unknown''),
      (''acquisition/licensing signals'', PStr '''')]"

definition reduced :: "pydict \<Rightarrow> pyval \<Rightarrow> bool" where
  "reduced entry e =
     (\<exists>r. e = PDict r \<and>
        map fst r = map fst entry_defaults @ [''_validated''] \<and>
        map_of r ''_validated'' = Some (PBool True) \<and>
        (\<forall>(f, dflt) \<in> set entry_defaults. map_of r f = Some (dict_get entry f dflt)))"

definition normalized_sample :: pydict where
  "normalized_sample =
     [(''Phase I'', PList [PDict [(''drug_name'', PStr ''AK117''), (''nct_id'', PStr ''NCT1'')],
                          PStr ''note'']),
      (''Phase II'', PStr ''none''),
      (''Discovery'', PList [PDict [(''drug_name'', PStr ''X'')]])]"

subsection \<open>String operations\<close>

definition is_space :: "char \<Rightarrow> bool" where
  "is_space c = (of_char c \<in> {9, 10, 11, 12, 13, 28, 29, 30, 31, 32 :: nat})"

definition lstrip :: "string \<Rightarrow> string" where
  "lstrip s = dropWhile is_space s"

definition rstrip :: "string \<Rightarrow> string" where
  "rstrip s = rev (dropWhile is_space (rev s))"

definition strip :: "string \<Rightarrow> string" where
  "strip s = rstrip (lstrip s)"

definition startswith :: "string \<Rightarrow> string \<Rightarrow> bool" where
  "startswith s p = (take (length p) s = p)"

definition endswith :: "string \<Rightarrow> string \<Rightarrow> bool" where
  "endswith s p = (length p \<le> length s \<and> drop (length s - length p) s = p)"

definition newline :: char where
  "newline = CHR 0x0A"

definition fence :: string where
  "fence = [CHR 0x60, CHR 0x60, CHR 0x60]"

text \<open>\<^verbatim>\<open>s.rfind(c)\<close>: the last index of the character, or -1.\<close>

definition rfind :: "string \<Rightarrow> char \<Rightarrow> int" where
  "rfind s c =
     (if c \<in> set s then int (length s) - 1 - int (length (takeWhile (\<lambda>x. x \<noteq> c) (rev s)))
      else - 1)"

text \<open>\<^verbatim>\<open>s.split('\n')\<close>: the pieces between the separators, at least one.\<close>

fun split_on :: "char \<Rightarrow> string \<Rightarrow> string list" where
  "split_on sep [] = [[]]"
| "split_on sep (c # cs) =
     (if c = sep then [] # split_on sep cs
      else (case split_on sep cs of
              [] \<Rightarrow> [[c]]
            | piece # pieces \<Rightarrow> (c # piece) # pieces))"

subsection \<open>Cleaning\<close>

definition clean_json_string :: "string \<Rightarrow> string" where
  "clean_json_string data =
     (let data = strip data;
          data = (if startswith data (fence @ ''json'')
                  then lstrip (drop (length (fence @ ''json'')) data) else data);
          data = (if startswith data fence then lstrip (drop (length fence) data) else data);
          data = (if endswith data fence then rstrip (take (length data - 3) data) else data);
          data = (if startswith data (''json'' @ [newline])
                  then strip (drop (length (''json'' @ [newline])) data) else data)
      in data)"

subsection \<open>The four strategies\<close>

text \<open>
  \<^verbatim>\<open>re.search(r'\[.*\]|\{.*\}', data, re.DOTALL)\<close>: the leftmost position that holds an
  opening bracket with a closing bracket after it, or an opening brace with a closing
  brace after it; the match runs to the last such closer.
\<close>

definition upto_last :: "char \<Rightarrow> string \<Rightarrow> string" where
  "upto_last c s = rev (dropWhile (\<lambda>x. x \<noteq> c) (rev s))"

fun regex_span :: "string \<Rightarrow> string option" where
  "regex_span [] = None"
| "regex_span (c # cs) =
     (if c = CHR ''['' \<and> CHR '']'' \<in> set cs then Some (c # upto_last CHR '']'' cs)
      else if c = CHR ''{'' \<and> CHR ''}'' \<in> set cs then Some (c # upto_last CHR ''}'' cs)
      else regex_span cs)"

text \<open>
  The backward scan of strategy 3 over the reversed candidate: \<open>n\<close> is the running
  count, \<open>acc\<close> the characters passed so far in their original order. The result is
  \<^verbatim>\<open>json_candidate[start_pos:]\<close>, or \<open>None\<close> when \<^verbatim>\<open>start_pos\<close> stays -1.
\<close>

fun scan_back :: "char \<Rightarrow> char \<Rightarrow> string \<Rightarrow> int \<Rightarrow> string \<Rightarrow> string option" where
  "scan_back closer opener [] n acc = None"
| "scan_back closer opener (c # cs) n acc =
     (if c = closer then scan_back closer opener cs (n + 1) (c # acc)
      else if c = opener then
        (if n - 1 = 0 then Some (c # acc) else scan_back closer opener cs (n - 1) (c # acc))
      else scan_back closer opener cs n (c # acc))"

definition matching_span :: "char \<Rightarrow> char \<Rightarrow> string \<Rightarrow> int \<Rightarrow> string option" where
  "matching_span closer opener data last_pos =
     scan_back closer opener (rev (take (nat (last_pos + 1)) data)) 0 []"

fun line_objects :: "runtime \<Rightarrow> string list \<Rightarrow> pyval list" where
  "line_objects rt [] = []"
| "line_objects rt (line # lines) =
     (let line = strip line in
      if startswith line ''{'' \<and> endswith line ''}'' then
        (case json_loads rt line of
           Some obj \<Rightarrow> obj # line_objects rt lines
         | None \<Rightarrow> line_objects rt lines)
      else line_objects rt lines)"

definition strategy4 :: "runtime \<Rightarrow> string \<Rightarrow> pyval" where
  "strategy4 rt data =
     (let objects = line_objects rt (split_on newline data) in
      if objects \<noteq> [] then PList objects else PNone)"

definition strategy3 :: "runtime \<Rightarrow> string \<Rightarrow> pyval" where
  "strategy3 rt data =
     (let last_brace = rfind data CHR ''}''; last_bracket = rfind data CHR '']'' in
      if last_bracket < last_brace then
        (case matching_span CHR ''}'' CHR ''{'' data last_brace of
           Some json_str \<Rightarrow>
             (case json_loads rt json_str of Some parsed \<Rightarrow> parsed | None \<Rightarrow> strategy4 rt data)
         | None \<Rightarrow> strategy4 rt data)
      else if last_brace < last_bracket then
        (case matching_span CHR '']'' CHR ''['' data last_bracket of
           Some json_str \<Rightarrow>
             (case json_loads rt json_str of Some parsed \<Rightarrow> parsed | None \<Rightarrow> strategy4 rt data)
         | None \<Rightarrow> strategy4 rt data)
      else strategy4 rt data)"

definition strategy2 :: "runtime \<Rightarrow> string \<Rightarrow> pyval" where
  "strategy2 rt data =
     (case regex_span data of
        Some json_str \<Rightarrow>
          (case json_loads rt json_str of Some parsed \<Rightarrow> parsed | None \<Rightarrow> strategy3 rt data)
      | None \<Rightarrow> strategy3 rt data)"

text \<open>The result \<open>PNone\<close> is Python's \<^verbatim>\<open>None\<close>: every strategy failed, or one parsed the
  JSON text \<^verbatim>\<open>null\<close>.\<close>

definition try_parse_json_strategies :: "runtime \<Rightarrow> string \<Rightarrow> string \<Rightarrow> pyval" where
  "try_parse_json_strategies rt data context =
     (case json_loads rt data of Some parsed \<Rightarrow> parsed | None \<Rightarrow> strategy2 rt data)"

subsection \<open>Fallbacks\<close>

definition original_data_preview :: "runtime \<Rightarrow> pyval \<Rightarrow> pyval" where
  "original_data_preview rt original_data =
     (if py_truthy original_data then PStr (take 100 (py_str rt original_data))
      else PStr ''No data'')"

definition mark_unknown :: "pyval \<Rightarrow> pyval" where
  "mark_unknown v =
     (if v = PStr [] then PStr ''Unknown''
      else if v = PList [] then PList []
      else if v = PDict [] then PDict []
      else v)"

definition create_fallback_response :: "runtime \<Rightarrow> pydict option \<Rightarrow> pyval \<Rightarrow> string \<Rightarrow> pydict" where
  "create_fallback_response rt fallback_template original_data context =
     (case fallback_template of
        Some template \<Rightarrow>
          if template \<noteq> [] then
            (let fallback = map (\<lambda>(k, v). (k, mark_unknown v)) template;
                 fallback = dict_set fallback ''_parsing_error'' (PBool True);
                 fallback = dict_set fallback ''_context'' (PStr context)
             in dict_set fallback ''_original_data_preview''
                  (original_data_preview rt original_data))
          else
            [(''error'', PStr ''JSON parsing failed''), (''status'', PStr ''Unknown''),
             (''context'', PStr context), (''parsing_error'', PBool True),
             (''original_data_preview'', original_data_preview rt original_data)]
      | None \<Rightarrow>
          [(''error'', PStr ''JSON parsing failed''), (''status'', PStr ''Unknown''),
           (''context'', PStr context), (''parsing_error'', PBool True),
           (''original_data_preview'', original_data_preview rt original_data)])"

definition graceful_json_parse :: "runtime \<Rightarrow> pyval \<Rightarrow> pydict option \<Rightarrow> string \<Rightarrow> pyval" where
  "graceful_json_parse rt data fallback_template context =
     (case data of
        PNone \<Rightarrow>
          (case fallback_template of
             Some template \<Rightarrow>
               if template \<noteq> [] then PDict template
               else PDict [(''error'', PStr ''No data''), (''status'', PStr ''Unknown'')]
           | None \<Rightarrow> PDict [(''error'', PStr ''No data''), (''status'', PStr ''Unknown'')])
      | PDict d \<Rightarrow> data
      | PList xs \<Rightarrow> data
      | PStr s \<Rightarrow>
          (let parsed_data = try_parse_json_strategies rt (clean_json_string s) context in
           if parsed_data \<noteq> PNone then parsed_data
           else PDict (create_fallback_response rt fallback_template data context))
      | _ \<Rightarrow> PDict (create_fallback_response rt fallback_template data context))"



definition generic_fallback :: "string \<Rightarrow> pydict" where
  "generic_fallback context =
     [(''error'', PStr ''JSON parsing failed''), (''status'', PStr ''Unknown''),
      (''context'', PStr context), (''parsing_error'', PBool True),
      (''original_data_preview'', PStr ''No data'')]"

definition no_data :: pydict where
  "no_data = [(''error'', PStr ''No data''), (''status'', PStr ''Unknown'')]"

definition clinical_template :: pydict where
  "clinical_template = [(''drug_name'', PStr ''Unknown''), (''acquisition/licensing signals'', PStr [])]"

(*DEFS_END*)

section \<open>Properties of the scoring stage\<close>

lemma bind_err_Inr: "bind_err m f = Inr y \<longleftrightarrow> (\<exists>x. m = Inr x \<and> f x = Inr y)"
  by (cases m) (auto simp: bind_err_def)

lemma bind_err_simps [simp]: "bind_err (Inr x) f = f x" "bind_err (Inl e) f = Inl e"
  by (simp_all add: bind_err_def)

lemma add_phase_counts_keys:
  "add_phase_counts rt items comb = Inr comb' \<Longrightarrow> map fst comb' = map fst comb"
proof (induction items arbitrary: comb)
  case Nil
  then show ?case by simp
next
  case (Cons a items)
  obtain phase count where a: "a = (phase, count)" by (cases a)
  have keep: "map fst (map (\<lambda>(k, c). if k = phase then (k, c + n) else (k, c)) comb) = map fst comb" for n
    by (induction comb) auto
  show ?case
  proof (cases "phase \<in> set (map fst comb)")
    case False
    with Cons a show ?thesis by simp
  next
    case True
    show ?thesis
    proof (cases "py_int rt count")
      case (Inl e)
      with Cons.prems a True have "add_phase_counts rt items comb = Inr comb'"
        by (simp split: if_splits)
      then show ?thesis by (rule Cons.IH)
    next
      case (Inr n)
      with Cons.prems a True have
        "add_phase_counts rt items (map (\<lambda>(k, c). if k = phase then (k, c + n) else (k, c)) comb) = Inr comb'"
        by simp
      from Cons.IH[OF this] keep show ?thesis by simp
    qed
  qed
qed

lemma sum_int_values_counts:
  "sum_int_values (map (\<lambda>(k, c). (k, PInt c)) ps) = Some (sum_list (map snd ps))"
  by (induction ps) auto

lemma map_of_dict_set_same: "map_of (dict_set d k v) k = Some v"
  by (induction d) auto

lemma map_of_dict_set_other: "k' \<noteq> k \<Longrightarrow> map_of (dict_set d k v) k' = map_of d k'"
  by (induction d) auto





lemma extend_field_items: "extend_field chunk k acc = acc @ list_items chunk k"
  by (simp add: extend_field_def list_items_def split: option.splits pyval.splits)

lemma phase_case_dist:
  "(case map_of chunk ''phase_distribution'' of
      Some (PDict phase_dist) \<Rightarrow> add_phase_counts rt phase_dist ph
    | _ \<Rightarrow> Inr ph) = add_phase_counts rt (chunk_phase_dist chunk) ph"
  by (simp add: chunk_phase_dist_def split: option.splits pyval.splits)

lemma modalities_case_items:
  "(case map_of chunk ''modalities'' of
      Some (PList ms) \<Rightarrow> if list_all hashable ms then Inr (acc @ ms) else Inl TypeError
    | _ \<Rightarrow> Inr acc) =
   (if list_all hashable (list_items chunk ''modalities'')
    then Inr (acc @ list_items chunk ''modalities'') else Inl TypeError)"
  by (simp add: list_items_def split: option.splits pyval.splits)

lemma combine_chunk_alt:
  "combine_chunk rt chunk acc =
     bind_err (add_phase_counts rt (chunk_phase_dist chunk) (phases acc)) (\<lambda>ph.
       if list_all hashable (list_items chunk ''modalities'') then
         Inr \<lparr>phases = ph, modalities = modalities acc @ list_items chunk ''modalities'',
              acquisitions = acquisitions acc @ list_items chunk ''notable_acquisitions'',
              flags = flags acc @ list_items chunk ''white_space_flags''\<rparr>
       else Inl TypeError)"
  unfolding combine_chunk_def phase_case_dist modalities_case_items extend_field_items
  by (cases "add_phase_counts rt (chunk_phase_dist chunk) (phases acc)") simp_all

lemma combine_chunk_Inr:
  "combine_chunk rt chunk acc = Inr acc' \<Longrightarrow>
     add_phase_counts rt (chunk_phase_dist chunk) (phases acc) = Inr (phases acc') \<and>
     list_all hashable (list_items chunk ''modalities'') \<and>
     modalities acc' = modalities acc @ list_items chunk ''modalities'' \<and>
     acquisitions acc' = acquisitions acc @ list_items chunk ''notable_acquisitions'' \<and>
     flags acc' = flags acc @ list_items chunk ''white_space_flags''"
  unfolding combine_chunk_alt
  by (cases "add_phase_counts rt (chunk_phase_dist chunk) (phases acc)")
     (auto split: if_splits)


lemma combine_chunk_keys:
  "combine_chunk rt chunk acc = Inr acc' \<Longrightarrow> map fst (phases acc') = map fst (phases acc)"
  using combine_chunk_Inr add_phase_counts_keys by blast

lemma combine_loop_keys:
  "combine_loop rt chunks acc = Inr acc' \<Longrightarrow> map fst (phases acc') = map fst (phases acc)"
proof (induction chunks arbitrary: acc)
  case Nil
  then show ?case by simp
next
  case (Cons c chunks)
  then obtain mid where "combine_chunk rt c acc = Inr mid" "combine_loop rt chunks mid = Inr acc'"
    by (auto simp: bind_err_Inr)
  with Cons.IH combine_chunk_keys show ?case by metis
qed










































lemma map_of_fill_field:
  "map_of (fill_field d a) f =
     (if f = a \<and> missing_or_falsy d a then Some (PStr ''Unknown'') else map_of d f)"
  by (auto simp: fill_field_def missing_or_falsy_def dict_has_def dict_get_def
      map_of_dict_set_same map_of_dict_set_other split: option.splits)

lemma missing_fill_field:
  "missing_or_falsy (fill_field d a) f \<longleftrightarrow> f \<noteq> a \<and> missing_or_falsy d f"
  unfolding missing_or_falsy_def[of "fill_field d a"] map_of_fill_field
  by (auto simp: missing_or_falsy_def py_truthy_def split: option.splits)

lemma map_of_foldl_fill:
  "map_of (foldl fill_field d fs) f =
     (if f \<in> set fs \<and> missing_or_falsy d f then Some (PStr ''Unknown'') else map_of d f)"
proof (induction fs arbitrary: d)
  case Nil
  then show ?case by simp
next
  case (Cons a fs)
  show ?case
    unfolding foldl_Cons Cons.IH missing_fill_field map_of_fill_field by auto
qed

lemma validated_item_backfilled: "backfilled fs d (validated_item fs d)"
  unfolding backfilled_def validated_item_def
proof (intro conjI ballI allI impI)
  show "map_of (dict_set (foldl fill_field d fs) ''_validated'' (PBool True)) ''_validated'' =
      Some (PBool True)" by (rule map_of_dict_set_same)
next
  fix f assume f: "f \<in> set fs"
  show "dict_has (dict_set (foldl fill_field d fs) ''_validated'' (PBool True)) f"
  proof (cases "f = ''_validated''")
    case True
    then show ?thesis by (simp add: dict_has_def map_of_dict_set_same)
  next
    case False
    then show ?thesis using f
      by (auto simp: dict_has_def map_of_dict_set_other map_of_foldl_fill missing_or_falsy_def
          split: option.splits)
  qed
next
  fix f :: string assume "f \<noteq> ''_validated''"
  then show "map_of (dict_set (foldl fill_field d fs) ''_validated'' (PBool True)) f =
      (if f \<in> set fs \<and> missing_or_falsy d f then Some (PStr ''Unknown'') else map_of d f)"
    by (simp add: map_of_dict_set_other map_of_foldl_fill)
qed

lemma valid_entries_backfilled:
  "list_all2 (backfilled fs) (dict_entries xs) (valid_entries fs xs)"
  by (induction fs xs rule: valid_entries.induct) (simp_all add: validated_item_backfilled)

text \<open>
  C7. The record validator is a total function of its input. Applied to a list, it
  returns one record for each dict element, in order, skipping every other element; each
  record holds every required field, has \<^verbatim>\<open>_validated\<close> set to \<^verbatim>\<open>True\<close>, and every other
  field is the sentinel \<^verbatim>\<open>Unknown\<close> where it is required and was missing or falsy in the
  element, and the element's own value otherwise. A single dict is treated as the list of
  that dict, and any input that is neither a list nor a dict gives the empty list.
\<close>

theorem extract_valid_entries_backfills:
  "list_all2 (backfilled (fields_of required_fields)) (dict_entries xs)
     (extract_valid_entries (PList xs) required_fields) \<and>
   extract_valid_entries (PDict d) required_fields =
     extract_valid_entries (PList [PDict d]) required_fields \<and>
   (\<not> is_list data \<and> \<not> is_dict data \<longrightarrow> extract_valid_entries data required_fields = [])"
  by (auto simp: extract_valid_entries_def fields_of_def valid_entries_backfilled
      validated_item_backfilled is_list_def is_dict_def split: option.splits pyval.splits)

theorem extract_valid_entries_backfills_witness:
  "list_all2 (backfilled [''drug_name'', ''phase'', ''status''])
     [[(''drug_name'', PStr ''AK117''), (''phase'', PStr [])]]
     (extract_valid_entries
        (PList [PDict [(''drug_name'', PStr ''AK117''), (''phase'', PStr [])], PInt 3])
        (Some [''drug_name'', ''phase'', ''status''])) \<and>
   extract_valid_entries
     (PList [PDict [(''drug_name'', PStr ''AK117''), (''phase'', PStr [])], PInt 3])
     (Some [''drug_name'', ''phase'', ''status'']) =
     [[(''drug_name'', PStr ''AK117''), (''phase'', PStr ''Unknown''),
       (''status'', PStr ''Unknown''), (''_validated'', PBool True)]] \<and>
   \<not> is_list (PInt 5) \<and> \<not> is_dict (PInt 5) \<and>
   extract_valid_entries (PInt 5) (Some [''drug_name'', ''phase'', ''status'']) = []"
proof -
  note t = extract_valid_entries_backfills[of "Some [''drug_name'', ''phase'', ''status'']"
      "[PDict [(''drug_name'', PStr ''AK117''), (''phase'', PStr [])], PInt 3]" "[]" "PInt 5"]
  have n: "\<not> is_list (PInt 5) \<and> \<not> is_dict (PInt 5)" by (simp add: is_list_def is_dict_def)
  from t n have e: "extract_valid_entries (PInt 5) (Some [''drug_name'', ''phase'', ''status'']) = []"
    by blast
  from t have l: "list_all2 (backfilled [''drug_name'', ''phase'', ''status''])
     [[(''drug_name'', PStr ''AK117''), (''phase'', PStr [])]]
     (extract_valid_entries
        (PList [PDict [(''drug_name'', PStr ''AK117''), (''phase'', PStr [])], PInt 3])
        (Some [''drug_name'', ''phase'', ''status'']))"
    by (simp add: fields_of_def)
  have v: "extract_valid_entries
     (PList [PDict [(''drug_name'', PStr ''AK117''), (''phase'', PStr [])], PInt 3])
     (Some [''drug_name'', ''phase'', ''status'']) =
     [[(''drug_name'', PStr ''AK117''), (''phase'', PStr ''Unknown''),
       (''status'', PStr ''Unknown''), (''_validated'', PBool True)]]"
    by (simp add: extract_valid_entries_def validated_item_def fill_field_def dict_has_def
        dict_get_def py_truthy_def)
  from l v n e show ?thesis by blast
qed

lemma validated_entries_reduced:
  "list_all2 reduced (dict_entries xs) (validated_entries xs)"
proof (induction xs rule: validated_entries.induct)
  case (2 entry phase_data)
  have "reduced entry (PDict (validated_entry entry))"
    unfolding reduced_def by (simp add: validated_entry_def entry_defaults_def)
  with 2 show ?case by simp
qed simp_all

lemma validate_normalized_structure_eq:
  "validate_normalized_structure data =
     [(''Preclinical'', validate_phase data ''Preclinical''),
      (''Phase I'', validate_phase data ''Phase I''),
      (''Phase II'', validate_phase data ''Phase II''),
      (''Phase III'', validate_phase data ''Phase III''),
      (''Approved'', validate_phase data ''Approved'')]"
  by (simp add: validate_normalized_structure_def valid_phases_def)

lemma validate_phase_cases:
  "\<exists>es. validate_phase data p = PList es \<and>
     (case map_of data p of
        Some (PList phase_data) \<Rightarrow> list_all2 reduced (dict_entries phase_data) es
      | _ \<Rightarrow> es = [])"
  by (auto simp: validate_phase_def validated_entries_reduced split: option.splits pyval.splits)

text \<open>
  C10. For every dict, the result of the single-chunk validator of the normalization
  stage has exactly the five phases as its keys, in their fixed order. The value of a
  phase is a list: empty when the input has no such key or a value that is not a list;
  otherwise one entry for each dict of the input list, in order, each with exactly the
  seven fixed fields, holding the input entry's value or the default, followed by
  \<^verbatim>\<open>_validated\<close> set to \<^verbatim>\<open>True\<close>.
\<close>

theorem validate_normalized_structure_shape:
  "map fst (validate_normalized_structure data) = valid_phases \<and>
   (\<forall>p \<in> set valid_phases.
      \<exists>es. map_of (validate_normalized_structure data) p = Some (PList es) \<and>
        (case map_of data p of
           Some (PList phase_data) \<Rightarrow> list_all2 reduced (dict_entries phase_data) es
         | _ \<Rightarrow> es = []))"
proof (intro conjI ballI)
  show "map fst (validate_normalized_structure data) = valid_phases"
    by (simp add: validate_normalized_structure_eq valid_phases_def)
next
  fix p assume "p \<in> set valid_phases"
  then have "map_of (validate_normalized_structure data) p = Some (validate_phase data p)"
    unfolding validate_normalized_structure_eq valid_phases_def by auto
  with validate_phase_cases[of data p]
  show "\<exists>es. map_of (validate_normalized_structure data) p = Some (PList es) \<and>
        (case map_of data p of
           Some (PList phase_data) \<Rightarrow> list_all2 reduced (dict_entries phase_data) es
         | _ \<Rightarrow> es = [])"
    by simp
qed

theorem validate_normalized_structure_shape_witness:
  "map fst (validate_normalized_structure normalized_sample) = valid_phases \<and>
   validate_normalized_structure normalized_sample =
     [(''Preclinical'', PList []),
      (''Phase I'', PList [PDict
         [(''drug_name'', PStr ''AK117''), (''status'', PStr ''Unknown''),
          (''modality'', PStr ''Unknown''), (''sponsor'', PStr ''Unknown''),
          (''indication'', PStr ''Unknown''), (''mechanism_of_action'', PStr ''Unknown''),
          (''acquisition/licensing signals'', PStr []), (''_validated'', PBool True)]]),
      (''Phase II'', PList []), (''Phase III'', PList []), (''Approved'', PList [])] \<and>
   (\<exists>es. map_of (validate_normalized_structure normalized_sample) ''Phase I'' = Some (PList es) \<and>
      list_all2 reduced [[(''drug_name'', PStr ''AK117''), (''nct_id'', PStr ''NCT1'')]] es)"
proof -
  note t = validate_normalized_structure_shape[of normalized_sample]
  have p: "''Phase I'' \<in> set valid_phases" by (simp add: valid_phases_def)
  from t p obtain es where
    es: "map_of (validate_normalized_structure normalized_sample) ''Phase I'' = Some (PList es)"
      "(case map_of normalized_sample ''Phase I'' of
           Some (PList phase_data) \<Rightarrow> list_all2 reduced (dict_entries phase_data) es
         | _ \<Rightarrow> es = [])"
    by blast
  from es(2) have "list_all2 reduced [[(''drug_name'', PStr ''AK117''), (''nct_id'', PStr ''NCT1'')]] es"
    by (simp add: normalized_sample_def)
  moreover have "validate_normalized_structure normalized_sample =
     [(''Preclinical'', PList []),
      (''Phase I'', PList [PDict
         [(''drug_name'', PStr ''AK117''), (''status'', PStr ''Unknown''),
          (''modality'', PStr ''Unknown''), (''sponsor'', PStr ''Unknown''),
          (''indication'', PStr ''Unknown''), (''mechanism_of_action'', PStr ''Unknown''),
          (''acquisition/licensing signals'', PStr []), (''_validated'', PBool True)]]),
      (''Phase II'', PList []), (''Phase III'', PList []), (''Approved'', PList [])]"
    by (simp add: validate_normalized_structure_eq validate_phase_def normalized_sample_def
        validated_entry_def dict_get_def)
  ultimately show ?thesis using t es(1) by blast
qed

section \<open>The resilient parser\<close>








lemma try_parse_empty:
  "json_loads rt [] = None \<Longrightarrow> try_parse_json_strategies rt [] c = PNone"
  by (simp add: try_parse_json_strategies_def strategy2_def strategy3_def strategy4_def
      rfind_def strip_def lstrip_def rstrip_def startswith_def)

lemma clean_empty: "clean_json_string [] = []"
  by (simp add: clean_json_string_def strip_def lstrip_def rstrip_def startswith_def
      endswith_def fence_def Let_def)

lemma graceful_empty:
  "json_loads rt [] = None \<Longrightarrow>
   graceful_json_parse rt (PStr []) tpl c = PDict (create_fallback_response rt tpl (PStr []) c)"
  by (simp add: graceful_json_parse_def clean_empty try_parse_empty)






lemma map_of_marked:
  "map_of (map (\<lambda>(k, v). (k, mark_unknown v)) template) k =
     map_option mark_unknown (map_of template k)"
  by (induction template) auto

lemma preview_empty: "original_data_preview rt (PStr []) = PStr ''No data''"
  by (simp add: original_data_preview_def py_truthy_def)

lemma fallback_template_tags:
  assumes "template \<noteq> []"
  shows "map_of (create_fallback_response rt (Some template) (PStr []) c) ''_context'' =
           Some (PStr c)"
    and "map_of (create_fallback_response rt (Some template) (PStr []) c) ''_parsing_error'' =
           Some (PBool True)"
    and "map_of (create_fallback_response rt (Some template) (PStr []) c)
           ''_original_data_preview'' = Some (PStr ''No data'')"
    and "k \<noteq> ''_parsing_error'' \<Longrightarrow> k \<noteq> ''_context'' \<Longrightarrow>
         k \<noteq> ''_original_data_preview'' \<Longrightarrow>
         map_of (create_fallback_response rt (Some template) (PStr []) c) k =
           map_option mark_unknown (map_of template k)"
  using assms
  by (simp_all add: create_fallback_response_def Let_def map_of_dict_set_same
      map_of_dict_set_other preview_empty map_of_marked)

text \<open>
  C8 (as amended). For the empty string (on which \<^verbatim>\<open>json.loads\<close> fails), the parser
  returns a fallback built from a non-empty template: the template's fields, with every
  empty string replaced by \<^verbatim>\<open>Unknown\<close>, tagged with \<^verbatim>\<open>_parsing_error\<close>, with the given
  context under \<^verbatim>\<open>_context\<close> and with the preview \<^verbatim>\<open>No data\<close>; without a template it
  returns the generic error mapping that holds the context. For \<^verbatim>\<open>None\<close> it returns the
  non-empty template itself, unchanged and without the context, and without a template
  the mapping of \<^verbatim>\<open>error\<close> and \<^verbatim>\<open>status\<close> alone.
\<close>

theorem graceful_json_parse_fallbacks:
  "(json_loads rt [] = None \<and> template \<noteq> [] \<longrightarrow>
      (\<exists>fb. graceful_json_parse rt (PStr []) (Some template) c = PDict fb \<and>
         map_of fb ''_context'' = Some (PStr c) \<and>
         map_of fb ''_parsing_error'' = Some (PBool True) \<and>
         map_of fb ''_original_data_preview'' = Some (PStr ''No data'') \<and>
         (\<forall>k. k \<noteq> ''_parsing_error'' \<and> k \<noteq> ''_context'' \<and> k \<noteq> ''_original_data_preview'' \<longrightarrow>
            map_of fb k = map_option mark_unknown (map_of template k)))) \<and>
   (json_loads rt [] = None \<longrightarrow>
      graceful_json_parse rt (PStr []) None c = PDict (generic_fallback c)) \<and>
   (template \<noteq> [] \<longrightarrow> graceful_json_parse rt PNone (Some template) c = PDict template) \<and>
   graceful_json_parse rt PNone None c = PDict no_data"
proof (intro conjI impI)
  assume a: "json_loads rt [] = None \<and> template \<noteq> []"
  then have g: "graceful_json_parse rt (PStr []) (Some template) c =
      PDict (create_fallback_response rt (Some template) (PStr []) c)"
    by (simp add: graceful_empty)
  from a have t: "template \<noteq> []" ..
  show "\<exists>fb. graceful_json_parse rt (PStr []) (Some template) c = PDict fb \<and>
         map_of fb ''_context'' = Some (PStr c) \<and>
         map_of fb ''_parsing_error'' = Some (PBool True) \<and>
         map_of fb ''_original_data_preview'' = Some (PStr ''No data'') \<and>
         (\<forall>k. k \<noteq> ''_parsing_error'' \<and> k \<noteq> ''_context'' \<and> k \<noteq> ''_original_data_preview'' \<longrightarrow>
            map_of fb k = map_option mark_unknown (map_of template k))"
    unfolding g using fallback_template_tags[OF t, where rt = rt and c = c] by blast
next
  assume "json_loads rt [] = None"
  then show "graceful_json_parse rt (PStr []) None c = PDict (generic_fallback c)"
    by (simp add: graceful_empty create_fallback_response_def generic_fallback_def preview_empty)
next
  assume "template \<noteq> []"
  then show "graceful_json_parse rt PNone (Some template) c = PDict template"
    by (simp add: graceful_json_parse_def)
next
  show "graceful_json_parse rt PNone None c = PDict no_data"
    by (simp add: graceful_json_parse_def no_data_def)
qed

theorem graceful_json_parse_fallbacks_witness:
  "json_loads plain_runtime [] = None \<and> clinical_template \<noteq> [] \<and>
   graceful_json_parse plain_runtime (PStr []) (Some clinical_template) ''Batch 1'' =
     PDict [(''drug_name'', PStr ''Unknown''), (''acquisition/licensing signals'', PStr ''Unknown''),
            (''_parsing_error'', PBool True), (''_context'', PStr ''Batch 1''),
            (''_original_data_preview'', PStr ''No data'')] \<and>
   (\<exists>fb. graceful_json_parse plain_runtime (PStr []) (Some clinical_template) ''Batch 1'' = PDict fb \<and>
      map_of fb ''_context'' = Some (PStr ''Batch 1'')) \<and>
   graceful_json_parse plain_runtime (PStr []) None ''Batch 1'' = PDict (generic_fallback ''Batch 1'') \<and>
   graceful_json_parse plain_runtime PNone (Some clinical_template) ''Batch 1'' = PDict clinical_template"
proof -
  have l: "json_loads plain_runtime [] = None" by (simp add: plain_runtime_def)
  have t: "clinical_template \<noteq> []" by (simp add: clinical_template_def)
  note f = graceful_json_parse_fallbacks[of plain_runtime clinical_template "''Batch 1''"]
  from f l t have 1: "\<exists>fb. graceful_json_parse plain_runtime (PStr []) (Some clinical_template) ''Batch 1'' = PDict fb \<and>
      map_of fb ''_context'' = Some (PStr ''Batch 1'')" by blast
  from f l have 2: "graceful_json_parse plain_runtime (PStr []) None ''Batch 1'' = PDict (generic_fallback ''Batch 1'')"
    by blast
  from f t have 3: "graceful_json_parse plain_runtime PNone (Some clinical_template) ''Batch 1'' = PDict clinical_template"
    by blast
  have 4: "graceful_json_parse plain_runtime (PStr []) (Some clinical_template) ''Batch 1'' =
     PDict [(''drug_name'', PStr ''Unknown''), (''acquisition/licensing signals'', PStr ''Unknown''),
            (''_parsing_error'', PBool True), (''_context'', PStr ''Batch 1''),
            (''_original_data_preview'', PStr ''No data'')]"
    by (simp add: graceful_empty[OF l] create_fallback_response_def clinical_template_def
        mark_unknown_def preview_empty Let_def)
  from l t 1 2 3 4 show ?thesis by blast
qed

theorem graceful_json_parse_fallbacks_counterexample:
  "graceful_json_parse plain_runtime PNone (Some clinical_template) ''Batch 1'' =
     PDict [(''drug_name'', PStr ''Unknown''), (''acquisition/licensing signals'', PStr [])] \<and>
   graceful_json_parse plain_runtime PNone None ''Batch 1'' =
     PDict [(''error'', PStr ''No data''), (''status'', PStr ''Unknown'')]"
  by (simp add: graceful_json_parse_def clinical_template_def)

(*THMS_END*)

end
